theory Spec2Isabelle
  imports Main "HOL-Library.Word"
begin

section \<open>Peer sessions of the WebRTC broadcast (connection/peer.go)\<close>

text \<open>
  A shallow embedding of \<^verbatim>\<open>connection/peer.go\<close>. A \<^verbatim>\<open>RemotePeer\<close> is a record; every
  method takes the session and returns the session it leaves behind. What a method does
  to its collaborators (the signal channel, the negotiation-engine connection, the
  outbound track, the deregistration channel, the log, the goroutines it starts) and to
  the \<^verbatim>\<open>PeerData\<close> it was handed by pointer is appended, in program order, to the
  \<open>trace\<close> of the session. What the collaborators answer (errors, parsed values, the
  packets of the inbound feed) is read from an environment record, so that every theorem
  holds for every behaviour of the collaborators.
\<close>

subsection \<open>Data\<close>

type_synonym error = string
type_synonym byte = "8 word"
type_synonym handle = nat

text \<open>\<^verbatim>\<open>webrtc.ICECandidateInit\<close> is opaque to this package: it is only decoded from a
  message, handed to the engine, or sent to the peer.\<close>

type_synonym iCECandidateInit = string

text \<open>The payload of \<^verbatim>\<open>SendMessage(name, payload interface{})\<close>: peer.go sends strings
  and candidates.\<close>

datatype payload = PString string | PCandidate iCECandidateInit

datatype peerConnectionState =
    PeerConnectionStateNew
  | PeerConnectionStateConnecting
  | PeerConnectionStateConnected
  | PeerConnectionStateDisconnected
  | PeerConnectionStateFailed
  | PeerConnectionStateClosed

text \<open>
  Modelled from the spec: the declaration of \<^verbatim>\<open>PeerData\<close> is not among the sources. Its
  fields are the ones peer.go reads and writes through \<^verbatim>\<open>peer.data\<close>: the engine factory
  \<^verbatim>\<open>api\<close> and its \<^verbatim>\<open>config\<close>, the session \<^verbatim>\<open>id\<close> (here \<open>ident\<close>, since \<open>id\<close> is
  the identity function of HOL), \<^verbatim>\<open>trackID\<close>, \<^verbatim>\<open>streamID\<close>, \<^verbatim>\<open>mtu\<close>, and the two
  flags \<^verbatim>\<open>running\<close> and \<^verbatim>\<open>closed\<close>.
\<close>

record peerData =
  api :: handle
  config :: handle
  ident :: string
  trackID :: string
  streamID :: string
  mtu :: nat
  running :: bool
  closed :: bool

text \<open>Everything a session does that can be seen from outside it.\<close>

datatype action =
    Log string
  | NewPeerConnection handle handle
  | SetEvent string
  | OnICECandidate
  | OnConnectionStateChange
  | SendMessage string payload
  | GoListen
  | SignalClose
  | PeerAddTrack handle
  | PeerCreateOffer
  | PeerSetLocalDescription string
  | PeerSetRemoteDescription string
  | PeerAddICECandidate iCECandidateInit
  | PeerClose "handle option"
  | GoSenderRead handle nat
  | GoRun
  | StreamReceive "byte list option"
  | TrackWrite "handle option" "byte list"
  | CloseSend handle string
  | DataSetRunning bool
  | DataSetClosed bool

record remotePeer =
  signal :: handle
  peer :: "handle option"
  track :: "handle option"
  stream :: handle
  close :: handle
  data :: peerData
  trace :: "action list"

text \<open>
  The answers of the collaborators. \<open>recv i\<close> is what the \<open>i\<close>-th receive from the
  inbound feed yields (\<open>None\<close>: the channel is closed), \<open>track_write i d\<close> the error of the
  write of the \<open>i\<close>-th packet. A Go call returning \<^verbatim>\<open>(value, error)\<close> is a sum, \<open>Inl\<close>
  the error, except \<^verbatim>\<open>NewPeerConnection\<close>, whose value peer.go stores before it looks
  at the error.
\<close>

record env =
  new_peer_connection :: "handle option \<times> error option"
  unmarshal_string :: "string \<Rightarrow> error + string"
  unmarshal_candidate :: "string \<Rightarrow> error + iCECandidateInit"
  send_message :: "string \<Rightarrow> payload \<Rightarrow> error option"
  set_remote_description :: "string \<Rightarrow> error option"
  add_ice_candidate :: "iCECandidateInit \<Rightarrow> error option"
  new_track :: "string \<Rightarrow> string \<Rightarrow> error + handle"
  add_track :: "handle \<Rightarrow> error + handle"
  create_offer :: "error + string"
  set_local_description :: "string \<Rightarrow> error option"
  recv :: "nat \<Rightarrow> byte list option"
  track_write :: "nat \<Rightarrow> byte list \<Rightarrow> error option"

subsection \<open>Close\<close>

definition emit :: "action \<Rightarrow> remotePeer \<Rightarrow> remotePeer" where
  "emit a p = p\<lparr>trace := trace p @ [a]\<rparr>"

definition Close :: "remotePeer \<Rightarrow> string \<Rightarrow> remotePeer" where
  "Close p reason =
     (if closed (data p) then p
      else
        let p1 = emit (Log (''Closing peer connection, reason: '' @ reason)) p;
            p2 = emit (SendMessage ''close'' (PString reason)) p1;
            p3 = emit SignalClose p2;
            p4 = emit (PeerClose (peer p3)) p3;
            p5 = emit (CloseSend (close p4) (ident (data p4))) p4
        in emit (DataSetClosed True) (p5\<lparr>data := (data p5)\<lparr>closed := True\<rparr>\<rparr>))"

subsection \<open>Signalling handlers\<close>

definition onSignalOffer :: "remotePeer \<Rightarrow> string \<Rightarrow> remotePeer" where
  "onSignalOffer p msg =
     Close (emit (SendMessage ''reject'' (PString ''unexpected offer'')) p) ''misbehaving host''"

definition onSignalReject :: "remotePeer \<Rightarrow> string \<Rightarrow> remotePeer" where
  "onSignalReject p msg = emit (Log (''Peer rejected signal with message '' @ msg)) p"

definition onSignalClose :: "remotePeer \<Rightarrow> string \<Rightarrow> remotePeer" where
  "onSignalClose p msg =
     Close (emit (Log (''Remote peer requested close with message: '' @ msg)) p) ''ok''"

definition onSignalAnswer :: "env \<Rightarrow> remotePeer \<Rightarrow> string \<Rightarrow> remotePeer" where
  "onSignalAnswer e p msg =
     (case unmarshal_string e msg of
        Inl err \<Rightarrow>
          let p1 = emit (Log (''RemotePeer: onAnswer: Unmarshal: '' @ err)) p;
              p2 = emit (SendMessage ''reject'' (PString ''invalid answer'')) p1
          in Close p2 ''failed to parse answer''
      | Inr ans \<Rightarrow>
          let p1 = emit (PeerSetRemoteDescription ans) p
          in (case set_remote_description e ans of
                Some err \<Rightarrow>
                  Close (emit (Log (''RemotePeer: onAnswer: SetRemoteDescription: '' @ err)) p1)
                    ''failed to add answer''
              | None \<Rightarrow> p1))"

definition onSignalCandidate :: "env \<Rightarrow> remotePeer \<Rightarrow> string \<Rightarrow> remotePeer" where
  "onSignalCandidate e p msg =
     (case unmarshal_candidate e msg of
        Inl err \<Rightarrow>
          let p1 = emit (Log (''RemotePeer: onCandidate: Unmarshal: '' @ err)) p;
              p2 = emit (SendMessage ''reject'' (PString ''invalid candidate'')) p1
          in Close p2 ''failed to parse candidate''
      | Inr candidate \<Rightarrow>
          let p1 = emit (PeerAddICECandidate candidate) p
          in (case add_ice_candidate e candidate of
                Some err \<Rightarrow>
                  Close (emit (Log (''RemotePeer: onCandidate: AddICECandidate: '' @ err)) p1)
                    ''failed to add candidate''
              | None \<Rightarrow> p1))"

subsection \<open>Engine callbacks\<close>

text \<open>The candidate is given by its \<^verbatim>\<open>ToJSON()\<close> value; \<open>None\<close> is the nil pointer that
  marks the end of the candidates.\<close>

definition onICECandidate :: "env \<Rightarrow> remotePeer \<Rightarrow> iCECandidateInit option \<Rightarrow> remotePeer" where
  "onICECandidate e p candidate =
     (case candidate of
        None \<Rightarrow> p
      | Some c \<Rightarrow>
          let p1 = emit (SendMessage ''candidate'' (PCandidate c)) p
          in (case send_message e ''candidate'' (PCandidate c) of
                Some err \<Rightarrow> Close p1 ''failed to send candidate''
              | None \<Rightarrow> p1))"

text \<open>\<^verbatim>\<open>go peer.run()\<close> only starts the goroutine: it is the action \<open>GoRun\<close>. What the
  goroutine then does is \<open>run\<close> below.\<close>

definition onConnectionStateChange :: "remotePeer \<Rightarrow> peerConnectionState \<Rightarrow> remotePeer" where
  "onConnectionStateChange p state =
     (case state of
        PeerConnectionStateConnected \<Rightarrow> (if \<not> running (data p) then emit GoRun p else p)
      | _ \<Rightarrow> p)"

subsection \<open>The forwarding loop\<close>

text \<open>
  Both loops of \<^verbatim>\<open>run\<close> may go on for ever, so they take fuel, the number of iterations
  they are allowed. \<open>Done\<close> is a return of the Go function, \<open>More\<close> the session as it
  stands when the fuel is spent and the loop is still going.
\<close>

datatype 'a outcome = Done 'a | More 'a

fun await_track :: "nat \<Rightarrow> remotePeer \<Rightarrow> remotePeer option" where
  "await_track 0 p = None"
| "await_track (Suc k) p = (if track p = None then await_track k p else Some p)"

fun forward :: "env \<Rightarrow> nat \<Rightarrow> nat \<Rightarrow> remotePeer \<Rightarrow> remotePeer outcome" where
  "forward e 0 i p = More p"
| "forward e (Suc k) i p =
     (case recv e i of
        None \<Rightarrow>
          let p1 = emit (StreamReceive None) p;
              p2 = emit (Log ''RemotePeer: run: channel closed'') p1
          in Done (Close p2 ''failed to read stream'')
      | Some d \<Rightarrow>
          let p1 = emit (StreamReceive (Some d)) p;
              p2 = emit (TrackWrite (track p1) d) p1
          in (case track_write e i d of
                Some err \<Rightarrow>
                  Done (Close (emit (Log (''RemotePeer: run: Write: '' @ err)) p2)
                          ''failed to write track'')
              | None \<Rightarrow> forward e k (Suc i) p2))"

definition set_running :: "bool \<Rightarrow> remotePeer \<Rightarrow> remotePeer" where
  "set_running b p = emit (DataSetRunning b) (p\<lparr>data := (data p)\<lparr>running := b\<rparr>\<rparr>)"

definition run :: "env \<Rightarrow> nat \<Rightarrow> remotePeer \<Rightarrow> remotePeer outcome" where
  "run e k p =
     (let p1 = set_running True p
      in (case await_track k p1 of
            None \<Rightarrow> More p1
          | Some p2 \<Rightarrow>
              (case forward e k 0 p2 of
                 Done p3 \<Rightarrow> Done (set_running False p3)
               | More p3 \<Rightarrow> More p3)))"

subsection \<open>Construction\<close>

definition addTrack :: "env \<Rightarrow> remotePeer \<Rightarrow> remotePeer" where
  "addTrack e p =
     (case new_track e (trackID (data p)) (streamID (data p)) of
        Inl err \<Rightarrow>
          Close (emit (Log (''RemotePeer: addTrack: NewTrackLocalStaticRTP: '' @ err)) p)
            ''failed to create track''
      | Inr t \<Rightarrow>
          let p1 = p\<lparr>track := Some t\<rparr>;
              p2 = emit (PeerAddTrack t) p1
          in (case add_track e t of
                Inl err \<Rightarrow>
                  Close (emit (Log (''RemotePeer: addTrack: AddTrack: '' @ err)) p2)
                    ''failed to add track''
              | Inr rtpSender \<Rightarrow> emit (GoSenderRead rtpSender (mtu (data p2))) p2))"

definition beginHandshake :: "env \<Rightarrow> remotePeer \<Rightarrow> remotePeer" where
  "beginHandshake e p =
     (let p1 = emit GoListen p;
          p2 = emit PeerCreateOffer p1
      in (case create_offer e of
            Inl err \<Rightarrow>
              Close (emit (Log (''RemotePeer: beginHandshake: CreateOffer: '' @ err)) p2)
                ''failed to create offer''
          | Inr offer \<Rightarrow>
              let p3 = emit (PeerSetLocalDescription offer) p2
              in (case set_local_description e offer of
                    Some err \<Rightarrow>
                      Close (emit (Log (''RemotePeer: beginHandshake: SetLocalDescription: '' @ err)) p3)
                        ''failed to add offer''
                  | None \<Rightarrow>
                      let p4 = emit (SendMessage ''offer'' (PString offer)) p3
                      in (case send_message e ''offer'' (PString offer) of
                            Some err \<Rightarrow>
                              Close (emit (Log (''RemotePeer: beginHandshake: SendMessage: '' @ err)) p4)
                                ''failed to send offer''
                          | None \<Rightarrow> p4))))"

text \<open>
  \<open>newRemotePeer\<close> returns the \<^verbatim>\<open>RemotePeer\<close> it allocated, as its methods left it, and
  the error. When the error is set the Go caller gets \<^verbatim>\<open>nil\<close> in place of the pointer;
  what \<^verbatim>\<open>Close\<close> did to the collaborators and to the \<^verbatim>\<open>PeerData\<close> has happened all the
  same, and is in the trace of the first component.
\<close>

definition newRemotePeer ::
  "env \<Rightarrow> handle \<Rightarrow> handle \<Rightarrow> handle \<Rightarrow> peerData \<Rightarrow> remotePeer \<times> error option" where
  "newRemotePeer e sig strm cls dat =
     (let (pc, err) = new_peer_connection e;
          remotePeer = \<lparr>signal = sig, peer = pc, track = None, stream = strm, close = cls,
                        data = dat,
                        trace = [Log ''New Peer'', NewPeerConnection (api dat) (config dat)]\<rparr>
      in (case err of
            Some er \<Rightarrow> (Close remotePeer ''failed to create peer connection'', Some er)
          | None \<Rightarrow>
              let p1 = emit (SetEvent ''offer'') remotePeer;
                  p2 = emit (SetEvent ''reject'') p1;
                  p3 = emit (SetEvent ''close'') p2;
                  p4 = emit (SetEvent ''answer'') p3;
                  p5 = emit (SetEvent ''candidate'') p4;
                  p6 = emit OnICECandidate p5;
                  p7 = emit OnConnectionStateChange p6;
                  p8 = addTrack e p7;
                  p9 = beginHandshake e p8
              in (p9, None)))"

subsection \<open>Delivery of events\<close>

text \<open>
  What can happen to a session once it is built: a signalling event, a callback of the
  engine, the goroutine of \<open>run\<close> working through up to \<open>k\<close> iterations, or a call of
  \<^verbatim>\<open>Close\<close> from outside.
\<close>

datatype callback =
    Signal string string
  | ICECandidate "iCECandidateInit option"
  | ConnectionState peerConnectionState
  | RunFor nat
  | CloseCall string

text \<open>
  Modelled from the spec: the dispatch of a signalling event to its handler belongs to the
  \<^verbatim>\<open>signal\<close> package, which is not among the sources (``\<^verbatim>\<open>SetEvent(name, handler)\<close>
  registers one handler per named event''). The table of \<open>deliver\<close> is the one the five
  \<^verbatim>\<open>SetEvent\<close> calls of \<^verbatim>\<open>newRemotePeer\<close> set up; an event of any other name reaches no
  code of peer.go. The other callbacks are the two that \<^verbatim>\<open>newRemotePeer\<close> registers
  with the engine, and the methods themselves.
\<close>

definition deliver :: "env \<Rightarrow> remotePeer \<Rightarrow> callback \<Rightarrow> remotePeer" where
  "deliver e p cb =
     (case cb of
        Signal name msg \<Rightarrow>
          if name = ''offer'' then onSignalOffer p msg
          else if name = ''reject'' then onSignalReject p msg
          else if name = ''close'' then onSignalClose p msg
          else if name = ''answer'' then onSignalAnswer e p msg
          else if name = ''candidate'' then onSignalCandidate e p msg
          else p
      | ICECandidate c \<Rightarrow> onICECandidate e p c
      | ConnectionState st \<Rightarrow> onConnectionStateChange p st
      | RunFor k \<Rightarrow> (case run e k p of Done q \<Rightarrow> q | More q \<Rightarrow> q)
      | CloseCall reason \<Rightarrow> Close p reason)"

text \<open>A session's life: the callbacks in the order they are served, each with the
  answers the collaborators give during it.\<close>

fun deliver_all :: "remotePeer \<Rightarrow> (env \<times> callback) list \<Rightarrow> remotePeer" where
  "deliver_all p [] = p"
| "deliver_all p ((e, cb) # rest) = deliver_all (deliver e p cb) rest"

subsection \<open>Vocabulary of the properties\<close>

text \<open>The actions \<open>q\<close> has performed since it was \<open>p\<close>.\<close>

definition emitted :: "remotePeer \<Rightarrow> remotePeer \<Rightarrow> action list" where
  "emitted p q = drop (length (trace p)) (trace q)"

text \<open>The teardown as the specification words it: nothing when the session is closed
  already; otherwise the peer is notified, the signal channel closed, the connection
  released, the id pushed onto the deregistration sink, and the session marked closed.\<close>

definition teardown :: "remotePeer \<Rightarrow> string \<Rightarrow> action list" where
  "teardown p reason =
     (if closed (data p) then []
      else [Log (''Closing peer connection, reason: '' @ reason),
            SendMessage ''close'' (PString reason),
            SignalClose,
            PeerClose (peer p),
            CloseSend (close p) (ident (data p)),
            DataSetClosed True])"




fun is_reject :: "action \<Rightarrow> bool" where
  "is_reject (SendMessage name pl) = (name = ''reject'')"
| "is_reject _ = False"


text \<open>The session parameters held in the \<^verbatim>\<open>PeerData\<close>: every field but the two flags.\<close>

definition params :: "peerData \<Rightarrow> handle \<times> handle \<times> string \<times> string \<times> string \<times> nat" where
  "params d = (api d, config d, ident d, trackID d, streamID d, mtu d)"

text \<open>A write goes to a track that exists.\<close>

fun write_has_track :: "action \<Rightarrow> bool" where
  "write_has_track (TrackWrite t d) = (t \<noteq> None)"
| "write_has_track _ = True"

text \<open>\<open>q\<close> has the trace of \<open>p\<close> and, after it, only actions that satisfy \<open>P\<close>.\<close>

definition grows_by :: "(action \<Rightarrow> bool) \<Rightarrow> remotePeer \<Rightarrow> remotePeer \<Rightarrow> bool" where
  "grows_by P p q =
     (take (length (trace p)) (trace q) = trace p \<and> list_all P (emitted p q))"

text \<open>The reasons of the \<^verbatim>\<open>close\<close> events among some actions.\<close>

fun close_reason_of :: "action \<Rightarrow> string list" where
  "close_reason_of (SendMessage name (PString r)) = (if name = ''close'' then [r] else [])"
| "close_reason_of _ = []"

definition close_reasons :: "action list \<Rightarrow> string list" where
  "close_reasons xs = concat (map close_reason_of xs)"

text \<open>
  The two ends of the forwarding loop, as the specification words them, in terms of what
  the feed and the track answer. The \<open>i\<close>-th packet is \<open>delivered\<close> when the \<open>i\<close>-th
  receive yields a packet and its write returns no error; after \<open>n\<close> packets delivered
  one after the other, the feed is closed at \<open>n\<close> when the next receive finds the channel
  closed, and the write fails at \<open>n\<close> when the next receive yields a packet whose write
  returns an error.
\<close>

definition delivered :: "env \<Rightarrow> nat \<Rightarrow> bool" where
  "delivered e i = (case recv e i of None \<Rightarrow> False | Some d \<Rightarrow> track_write e i d = None)"




subsection \<open>A session to evaluate on\<close>

text \<open>A session to evaluate the theorems on: an engine that answers every call without
  error, a feed of three packets that is then closed.\<close>

definition demo_data :: peerData where
  "demo_data = \<lparr>api = 0, config = 0, ident = ''viewer-1'', trackID = ''video'',
                 streamID = ''cam1'', mtu = 1600, running = False, closed = False\<rparr>"

definition demo_env :: env where
  "demo_env = \<lparr>new_peer_connection = (Some 7, None),
                unmarshal_string = (\<lambda>msg. if msg = [] then Inl ''unexpected end of JSON input'' else Inr msg),
                unmarshal_candidate = (\<lambda>msg. if msg = [] then Inl ''unexpected end of JSON input'' else Inr msg),
                send_message = (\<lambda>name pl. None),
                set_remote_description = (\<lambda>sdp. None),
                add_ice_candidate = (\<lambda>c. None),
                new_track = (\<lambda>t s. Inr 9),
                add_track = (\<lambda>t. Inr 11),
                create_offer = Inr ''v=0'',
                set_local_description = (\<lambda>sdp. None),
                recv = (\<lambda>i. if i < 3 then Some [of_nat i] else None),
                track_write = (\<lambda>i d. None)\<rparr>"

definition demo_peer :: remotePeer where
  "demo_peer = fst (newRemotePeer demo_env 1 2 3 demo_data)"

text \<open>The same engine, except that it refuses every remote description.\<close>

definition refusing_env :: env where
  "refusing_env = demo_env\<lparr>set_remote_description := (\<lambda>sdp. Some ''InvalidModificationError'')\<rparr>"


section \<open>Properties\<close>

subsection \<open>What each method does to the fields\<close>

lemma trace_emit [simp]: "trace (emit a p) = trace p @ [a]"
  by (simp add: emit_def)

lemma fields_emit [simp]:
  "data (emit a p) = data p" "track (emit a p) = track p" "peer (emit a p) = peer p"
  "close (emit a p) = close p" "signal (emit a p) = signal p" "stream (emit a p) = stream p"
  by (simp_all add: emit_def)

lemma emitted_append: "trace q = trace p @ xs \<Longrightarrow> emitted p q = xs"
  by (simp add: emitted_def)

lemma emitted_self [simp]: "emitted p p = []"
  by (simp add: emitted_def)

lemma trace_Close: "trace (Close p reason) = trace p @ teardown p reason"
  by (simp add: Close_def teardown_def Let_def)

lemma data_Close: "data (Close p reason) = (data p)\<lparr>closed := True\<rparr>"
  by (simp add: Close_def Let_def)

lemma closed_Close [simp]: "closed (data (Close p reason))"
  by (simp add: data_Close)

lemma fields_Close [simp]:
  "track (Close p reason) = track p" "peer (Close p reason) = peer p"
  "close (Close p reason) = close p" "signal (Close p reason) = signal p"
  "stream (Close p reason) = stream p"
  "running (data (Close p reason)) = running (data p)"
  by (simp_all add: Close_def Let_def)



lemma demo_peer_trace:
  "trace demo_peer =
     [Log ''New Peer'', NewPeerConnection 0 0, SetEvent ''offer'', SetEvent ''reject'',
      SetEvent ''close'', SetEvent ''answer'', SetEvent ''candidate'', OnICECandidate,
      OnConnectionStateChange, PeerAddTrack 9, GoSenderRead 11 1600, GoListen,
      PeerCreateOffer, PeerSetLocalDescription ''v=0'', SendMessage ''offer'' (PString ''v=0'')]"
  by (simp add: demo_peer_def newRemotePeer_def demo_env_def demo_data_def addTrack_def
      beginHandshake_def Let_def)

lemma demo_peer_fields:
  "data demo_peer = demo_data" "track demo_peer = Some 9" "peer demo_peer = Some 7"
  "close demo_peer = 3" "signal demo_peer = 1" "stream demo_peer = 2"
  by (simp_all add: demo_peer_def newRemotePeer_def demo_env_def demo_data_def addTrack_def
      beginHandshake_def Let_def)

lemma teardown_emit [simp]: "teardown (emit a p) reason = teardown p reason"
  by (simp add: teardown_def)

lemma demo_peer_open [simp]: "\<not> closed (data demo_peer)"
  by (simp add: demo_peer_fields demo_data_def)

lemma teardown_demo_peer:
  "teardown demo_peer reason =
     [Log (''Closing peer connection, reason: '' @ reason),
      SendMessage ''close'' (PString reason), SignalClose, PeerClose (Some 7),
      CloseSend 3 ''viewer-1'', DataSetClosed True]"
  by (simp add: teardown_def demo_peer_fields demo_data_def)

subsection \<open>Close\<close>





subsection \<open>Signalling events\<close>

text \<open>
  C8. In every state of the session, an \<^verbatim>\<open>offer\<close> event from the peer makes the session
  send \<^verbatim>\<open>reject\<close> with the reason ``unexpected offer'' and then call \<^verbatim>\<open>Close\<close> with the
  reason ``misbehaving host'' (the teardown with that reason, unless the session was
  closed already); afterwards the session is closed.
\<close>

theorem onSignalOffer_rejects_and_closes:
  "deliver e p (Signal ''offer'' msg) = onSignalOffer p msg \<and>
   emitted p (onSignalOffer p msg) =
     SendMessage ''reject'' (PString ''unexpected offer'') # teardown p ''misbehaving host'' \<and>
   closed (data (onSignalOffer p msg))"
  by (simp add: deliver_def onSignalOffer_def emitted_append trace_Close)

text \<open>
  C2, as the specification states it, fails for \<^verbatim>\<open>reject\<close>: the handler of \<^verbatim>\<open>reject\<close>
  writes a log line and nothing else. On the freshly built, open session the event leaves
  the session open.
\<close>

theorem reject_event_counterexample:
  "\<not> closed (data (onSignalReject demo_peer ''null'')) \<and>
   emitted demo_peer (onSignalReject demo_peer ''null'') =
     [Log ''Peer rejected signal with message null''] \<and>
   deliver demo_env demo_peer (Signal ''reject'' ''null'') = onSignalReject demo_peer ''null''"
  by (simp add: deliver_def onSignalReject_def emitted_append)

text \<open>
  C2, amended. In every state of the session, a \<^verbatim>\<open>close\<close> event from the peer is logged
  and leaves the session closed, with the teardown of \<^verbatim>\<open>Close\<close> for the reason ``ok''
  performed unless the session was closed already. A \<^verbatim>\<open>reject\<close> event from the peer is
  only logged: it performs no other action and leaves both flags as they were.
\<close>

theorem close_event_closes:
  "deliver e p (Signal ''close'' msg) = onSignalClose p msg \<and>
   closed (data (onSignalClose p msg)) \<and>
   emitted p (onSignalClose p msg) =
     Log (''Remote peer requested close with message: '' @ msg) # teardown p ''ok'' \<and>
   deliver e p (Signal ''reject'' msg) = onSignalReject p msg \<and>
   data (onSignalReject p msg) = data p \<and>
   emitted p (onSignalReject p msg) = [Log (''Peer rejected signal with message '' @ msg)]"
  by (simp add: deliver_def onSignalClose_def onSignalReject_def emitted_append trace_Close)

text \<open>
  C4, as the specification states it, fails when the engine refuses the description: the
  session closes with the reason ``failed to add answer'', but no \<^verbatim>\<open>reject\<close> event is
  sent.
\<close>

theorem answer_apply_failure_counterexample:
  "unmarshal_string refusing_env ''v=0'' = Inr ''v=0'' \<and>
   set_remote_description refusing_env ''v=0'' = Some ''InvalidModificationError'' \<and>
   emitted demo_peer (onSignalAnswer refusing_env demo_peer ''v=0'') =
     [PeerSetRemoteDescription ''v=0'',
      Log ''RemotePeer: onAnswer: SetRemoteDescription: InvalidModificationError'',
      Log ''Closing peer connection, reason: failed to add answer'',
      SendMessage ''close'' (PString ''failed to add answer''),
      SignalClose, PeerClose (Some 7), CloseSend 3 ''viewer-1'', DataSetClosed True] \<and>
   filter is_reject (emitted demo_peer (onSignalAnswer refusing_env demo_peer ''v=0'')) = []"
  by (simp add: refusing_env_def demo_env_def onSignalAnswer_def emitted_append trace_Close
      teardown_demo_peer)

text \<open>
  C4, amended. On an \<^verbatim>\<open>answer\<close> event: if the payload cannot be decoded, the session
  sends \<^verbatim>\<open>reject\<close> with the reason ``invalid answer'' and calls \<^verbatim>\<open>Close\<close> with the reason
  ``failed to parse answer''; if it is decoded and the engine refuses it as the remote
  description, the session calls \<^verbatim>\<open>Close\<close> with the reason ``failed to add answer''
  and sends no \<^verbatim>\<open>reject\<close>; in both cases the session ends closed. If both steps succeed
  the only action is the call of the engine, and the flags of the session are unchanged:
  an open session stays open.
\<close>

theorem onSignalAnswer_outcomes:
  "(unmarshal_string e msg = Inl err \<longrightarrow>
      emitted p (onSignalAnswer e p msg) =
        [Log (''RemotePeer: onAnswer: Unmarshal: '' @ err),
         SendMessage ''reject'' (PString ''invalid answer'')] @ teardown p ''failed to parse answer'' \<and>
      closed (data (onSignalAnswer e p msg))) \<and>
   (unmarshal_string e msg = Inr ans \<and> set_remote_description e ans = Some err \<longrightarrow>
      emitted p (onSignalAnswer e p msg) =
        [PeerSetRemoteDescription ans,
         Log (''RemotePeer: onAnswer: SetRemoteDescription: '' @ err)] @ teardown p ''failed to add answer'' \<and>
      closed (data (onSignalAnswer e p msg))) \<and>
   (unmarshal_string e msg = Inr ans \<and> set_remote_description e ans = None \<longrightarrow>
      emitted p (onSignalAnswer e p msg) = [PeerSetRemoteDescription ans] \<and>
      data (onSignalAnswer e p msg) = data p)"
  by (simp add: onSignalAnswer_def emitted_append trace_Close)

theorem onSignalAnswer_outcomes_witness:
  "(unmarshal_string demo_env [] = Inl ''unexpected end of JSON input'' \<and>
    emitted demo_peer (onSignalAnswer demo_env demo_peer []) =
      [Log ''RemotePeer: onAnswer: Unmarshal: unexpected end of JSON input'',
       SendMessage ''reject'' (PString ''invalid answer''),
       Log ''Closing peer connection, reason: failed to parse answer'',
       SendMessage ''close'' (PString ''failed to parse answer''),
       SignalClose, PeerClose (Some 7), CloseSend 3 ''viewer-1'', DataSetClosed True]) \<and>
   (unmarshal_string refusing_env ''v=0'' = Inr ''v=0'' \<and>
    set_remote_description refusing_env ''v=0'' = Some ''InvalidModificationError'' \<and>
    closed (data (onSignalAnswer refusing_env demo_peer ''v=0''))) \<and>
   (unmarshal_string demo_env ''v=0'' = Inr ''v=0'' \<and>
    set_remote_description demo_env ''v=0'' = None \<and>
    emitted demo_peer (onSignalAnswer demo_env demo_peer ''v=0'') = [PeerSetRemoteDescription ''v=0''] \<and>
    \<not> closed (data (onSignalAnswer demo_env demo_peer ''v=0'')))"
proof -
  have a: "unmarshal_string demo_env [] = Inl ''unexpected end of JSON input''"
    by (simp add: demo_env_def)
  have b: "unmarshal_string refusing_env ''v=0'' = Inr ''v=0'' \<and>
           set_remote_description refusing_env ''v=0'' = Some ''InvalidModificationError''"
    by (simp add: refusing_env_def demo_env_def)
  have c: "unmarshal_string demo_env ''v=0'' = Inr ''v=0'' \<and>
           set_remote_description demo_env ''v=0'' = None"
    by (simp add: demo_env_def)
  show ?thesis
    using a b c
      onSignalAnswer_outcomes [of demo_env "[]" "''unexpected end of JSON input''" demo_peer]
      onSignalAnswer_outcomes [of refusing_env "''v=0''" "''InvalidModificationError''" demo_peer "''v=0''"]
      onSignalAnswer_outcomes [of demo_env "''v=0''" _ demo_peer "''v=0''"]
    by (simp add: teardown_demo_peer)
qed



subsection \<open>Start of the forwarding loop\<close>

text \<open>
  C10. Whether a ``connected'' callback starts the goroutine of \<^verbatim>\<open>run\<close> depends on the
  \<^verbatim>\<open>running\<close> flag alone. In particular, on a session that is closed and whose
  \<^verbatim>\<open>running\<close> flag is false, the callback starts the forwarding loop.
\<close>

theorem connected_starts_run_when_closed:
  "emitted p (onConnectionStateChange p PeerConnectionStateConnected) =
     (if running (data p) then [] else [GoRun]) \<and>
   (closed (data p) \<and> \<not> running (data p) \<longrightarrow>
      emitted p (onConnectionStateChange p PeerConnectionStateConnected) = [GoRun])"
  by (simp add: onConnectionStateChange_def emitted_append)

theorem connected_starts_run_when_closed_witness:
  "closed (data (Close demo_peer ''ok'')) \<and> \<not> running (data (Close demo_peer ''ok'')) \<and>
   emitted (Close demo_peer ''ok'')
     (onConnectionStateChange (Close demo_peer ''ok'') PeerConnectionStateConnected) = [GoRun]"
  using connected_starts_run_when_closed [of "Close demo_peer ''ok''"]
  by (simp add: demo_peer_fields demo_data_def)

subsection \<open>Writes to the outbound track\<close>

lemma grows_by_iff: "grows_by P p q \<longleftrightarrow> (\<exists>xs. trace q = trace p @ xs \<and> list_all P xs)"
proof
  assume g: "grows_by P p q"
  then have "trace q = trace p @ emitted p q"
    unfolding grows_by_def emitted_def by (metis append_take_drop_id)
  with g show "\<exists>xs. trace q = trace p @ xs \<and> list_all P xs"
    unfolding grows_by_def by blast
next
  assume "\<exists>xs. trace q = trace p @ xs \<and> list_all P xs"
  then show "grows_by P p q"
    by (auto simp: grows_by_def emitted_def)
qed

lemma grows_by_refl [simp]: "grows_by P p p"
  by (simp add: grows_by_iff)

lemma grows_by_trans: "grows_by P p q \<Longrightarrow> grows_by P q r \<Longrightarrow> grows_by P p r"
  by (auto simp: grows_by_iff)

lemma grows_by_emit: "P a \<Longrightarrow> grows_by P p q \<Longrightarrow> grows_by P p (emit a q)"
  by (auto simp: grows_by_iff)

lemma grows_by_trace: "trace q = trace r \<Longrightarrow> grows_by P p q \<Longrightarrow> grows_by P p r"
  by (simp add: grows_by_iff)


lemma teardown_guarded: "list_all write_has_track (teardown p reason)"
  by (simp add: teardown_def)

lemma grows_by_Close: "grows_by write_has_track p q \<Longrightarrow> grows_by write_has_track p (Close q reason)"
  by (auto simp: grows_by_iff trace_Close teardown_guarded)

lemmas grows_intros = grows_by_Close grows_by_emit grows_by_refl

lemma handlers_guarded:
  "grows_by write_has_track p (onSignalOffer p msg)"
  "grows_by write_has_track p (onSignalReject p msg)"
  "grows_by write_has_track p (onSignalClose p msg)"
  "grows_by write_has_track p (onSignalAnswer e p msg)"
  "grows_by write_has_track p (onSignalCandidate e p msg)"
  "grows_by write_has_track p (onICECandidate e p c)"
  "grows_by write_has_track p (onConnectionStateChange p st)"
  by (auto simp: onSignalOffer_def onSignalReject_def onSignalClose_def onSignalAnswer_def
      onSignalCandidate_def onICECandidate_def onConnectionStateChange_def Let_def
      intro!: grows_intros split: sum.splits option.splits peerConnectionState.splits)

lemma forward_guarded:
  "track p \<noteq> None \<Longrightarrow> grows_by write_has_track p (case forward e k i p of Done q \<Rightarrow> q | More q \<Rightarrow> q)"
proof (induction k arbitrary: i p)
  case 0
  then show ?case by simp
next
  case (Suc k)
  show ?case
  proof (cases "recv e i")
    case None
    then show ?thesis by (simp add: Let_def grows_intros)
  next
    case (Some d)
    let ?p2 = "emit (TrackWrite (track p) d) (emit (StreamReceive (Some d)) p)"
    have step: "grows_by write_has_track p ?p2"
      using Suc.prems by (auto intro!: grows_intros)
    show ?thesis
    proof (cases "track_write e i d")
      case None
      have "grows_by write_has_track ?p2 (case forward e k (Suc i) ?p2 of Done q \<Rightarrow> q | More q \<Rightarrow> q)"
        using Suc.prems by (intro Suc.IH) simp
      with step show ?thesis
        using Some None by (simp add: Let_def) (erule grows_by_trans)
    next
      case (Some err)
      with step \<open>recv e i = Some d\<close> show ?thesis
        by (simp add: Let_def grows_intros)
    qed
  qed
qed

lemma await_track_Some: "await_track k p = Some q \<longleftrightarrow> 0 < k \<and> track p \<noteq> None \<and> q = p"
  by (induction k) auto

lemma await_track_None: "await_track k p = None \<longleftrightarrow> k = 0 \<or> track p = None"
  by (induction k) auto

lemma set_running_fields [simp]:
  "trace (set_running b p) = trace p @ [DataSetRunning b]"
  "track (set_running b p) = track p"
  "closed (data (set_running b p)) = closed (data p)"
  "running (data (set_running b p)) = b"
  "peer (set_running b p) = peer p" "close (set_running b p) = close p"
  "ident (data (set_running b p)) = ident (data p)"
  by (simp_all add: set_running_def)

lemma grows_by_set_running:
  "grows_by write_has_track p q \<Longrightarrow> grows_by write_has_track p (set_running b q)"
  by (auto simp: grows_by_iff)

lemma run_guarded:
  "grows_by write_has_track p (case run e k p of Done q \<Rightarrow> q | More q \<Rightarrow> q)"
proof (cases "await_track k (set_running True p)")
  case None
  then show ?thesis by (simp add: run_def grows_by_set_running)
next
  case (Some p2)
  then have p2: "p2 = set_running True p" and tr: "track (set_running True p) \<noteq> None"
    by (simp_all add: await_track_Some)
  have a: "grows_by write_has_track p (set_running True p)"
    by (simp add: grows_by_set_running)
  have b: "grows_by write_has_track (set_running True p)
             (case forward e k 0 (set_running True p) of Done q \<Rightarrow> q | More q \<Rightarrow> q)"
    using tr by (rule forward_guarded)
  show ?thesis
  proof (cases "forward e k 0 (set_running True p)")
    case (Done q)
    with a b Some p2 show ?thesis
      by (simp add: run_def) (metis grows_by_trans grows_by_set_running)
  next
    case (More q)
    with a b Some p2 show ?thesis
      by (simp add: run_def) (metis grows_by_trans)
  qed
qed

lemma deliver_guarded: "grows_by write_has_track p (deliver e p cb)"
  by (cases cb) (simp_all add: deliver_def handlers_guarded run_guarded grows_by_Close)

lemma deliver_all_guarded: "grows_by write_has_track p (deliver_all p cbs)"
proof (induction cbs arbitrary: p)
  case Nil
  then show ?case by simp
next
  case (Cons x cbs)
  obtain e cb where x: "x = (e, cb)" by (cases x)
  show ?case
    using deliver_guarded [of p e cb] Cons.IH [of "deliver e p cb"]
    by (simp add: x) (erule (1) grows_by_trans)
qed

lemma addTrack_guarded: "grows_by write_has_track p (addTrack e p)"
  by (auto simp: addTrack_def Let_def grows_by_iff trace_Close teardown_guarded split: sum.splits)

lemma beginHandshake_guarded: "grows_by write_has_track p (beginHandshake e p)"
  by (auto simp: beginHandshake_def Let_def grows_by_iff trace_Close teardown_guarded
      split: sum.splits option.splits)

lemma newRemotePeer_guarded:
  "list_all write_has_track (trace (fst (newRemotePeer e sig strm cls dat)))"
proof (cases "new_peer_connection e")
  case (Pair pc err)
  let ?p0 = "\<lparr>signal = sig, peer = pc, track = None, stream = strm, close = cls, data = dat,
              trace = [Log ''New Peer'', NewPeerConnection (api dat) (config dat)]\<rparr>"
  show ?thesis
  proof (cases err)
    case (Some er)
    with Pair show ?thesis
      by (simp add: newRemotePeer_def trace_Close teardown_guarded)
  next
    case None
    let ?p7 = "emit OnConnectionStateChange (emit OnICECandidate (emit (SetEvent ''candidate'')
                (emit (SetEvent ''answer'') (emit (SetEvent ''close'') (emit (SetEvent ''reject'')
                (emit (SetEvent ''offer'') ?p0))))))"
    have "grows_by write_has_track ?p7 (beginHandshake e (addTrack e ?p7))"
      by (rule grows_by_trans [OF addTrack_guarded beginHandshake_guarded])
    then obtain xs where "trace (beginHandshake e (addTrack e ?p7)) = trace ?p7 @ xs"
      and "list_all write_has_track xs"
      by (auto simp: grows_by_iff)
    with Pair None show ?thesis
      by (simp add: newRemotePeer_def Let_def)
  qed
qed

text \<open>
  C7. No packet is written to the outbound track before the track exists: every write
  that a session performs, in any callback, in the forwarding loop run for any number of
  iterations, and so over any sequence of them from the construction on, is a write to a
  track field that is not nil. The constructor itself writes nothing.
\<close>

theorem writes_only_to_created_track:
  "list_all write_has_track (emitted p (deliver e p cb)) \<and>
   list_all write_has_track (emitted p (deliver_all p cbs)) \<and>
   list_all write_has_track (trace (deliver_all (fst (newRemotePeer e sig strm cls dat)) cbs))"
proof (intro conjI)
  show "list_all write_has_track (emitted p (deliver e p cb))"
    using deliver_guarded [of p e cb] by (simp add: grows_by_def)
  show "list_all write_has_track (emitted p (deliver_all p cbs))"
    using deliver_all_guarded [of p cbs] by (simp add: grows_by_def)
  let ?p = "fst (newRemotePeer e sig strm cls dat)"
  from deliver_all_guarded [of ?p cbs] obtain xs
    where "trace (deliver_all ?p cbs) = trace ?p @ xs" and "list_all write_has_track xs"
    by (auto simp: grows_by_iff)
  then show "list_all write_has_track (trace (deliver_all ?p cbs))"
    using newRemotePeer_guarded [of e sig strm cls dat] by simp
qed

theorem writes_only_to_created_track_witness:
  "list_all write_has_track
     (emitted demo_peer
        (deliver_all demo_peer
           [(demo_env, ConnectionState PeerConnectionStateConnected), (demo_env, RunFor 4)])) \<and>
   emitted demo_peer
     (deliver_all demo_peer
        [(demo_env, ConnectionState PeerConnectionStateConnected), (demo_env, RunFor 4)]) =
     [GoRun, DataSetRunning True,
      StreamReceive (Some [0]), TrackWrite (Some 9) [0],
      StreamReceive (Some [1]), TrackWrite (Some 9) [1],
      StreamReceive (Some [2]), TrackWrite (Some 9) [2],
      StreamReceive None, Log ''RemotePeer: run: channel closed'',
      Log ''Closing peer connection, reason: failed to read stream'',
      SendMessage ''close'' (PString ''failed to read stream''),
      SignalClose, PeerClose (Some 7), CloseSend 3 ''viewer-1'', DataSetClosed True,
      DataSetRunning False]"
proof -
  have "trace (deliver_all demo_peer
           [(demo_env, ConnectionState PeerConnectionStateConnected), (demo_env, RunFor 4)]) =
     trace demo_peer @ [GoRun, DataSetRunning True,
      StreamReceive (Some [0]), TrackWrite (Some 9) [0],
      StreamReceive (Some [1]), TrackWrite (Some 9) [1],
      StreamReceive (Some [2]), TrackWrite (Some 9) [2],
      StreamReceive None, Log ''RemotePeer: run: channel closed'',
      Log ''Closing peer connection, reason: failed to read stream'',
      SendMessage ''close'' (PString ''failed to read stream''),
      SignalClose, PeerClose (Some 7), CloseSend 3 ''viewer-1'', DataSetClosed True,
      DataSetRunning False]"
    by (simp add: deliver_def onConnectionStateChange_def run_def demo_peer_fields demo_data_def
        demo_env_def eval_nat_numeral Let_def trace_Close teardown_def)
  then have "emitted demo_peer (deliver_all demo_peer
           [(demo_env, ConnectionState PeerConnectionStateConnected), (demo_env, RunFor 4)]) =
     [GoRun, DataSetRunning True,
      StreamReceive (Some [0]), TrackWrite (Some 9) [0],
      StreamReceive (Some [1]), TrackWrite (Some 9) [1],
      StreamReceive (Some [2]), TrackWrite (Some 9) [2],
      StreamReceive None, Log ''RemotePeer: run: channel closed'',
      Log ''Closing peer connection, reason: failed to read stream'',
      SendMessage ''close'' (PString ''failed to read stream''),
      SignalClose, PeerClose (Some 7), CloseSend 3 ''viewer-1'', DataSetClosed True,
      DataSetRunning False]"
    by (rule emitted_append)
  with writes_only_to_created_track [of demo_peer demo_env "CloseCall []"
      "[(demo_env, ConnectionState PeerConnectionStateConnected), (demo_env, RunFor 4)]"]
  show ?thesis by blast
qed

subsection \<open>The session parameters\<close>

lemma params_emit [simp]: "params (data (emit a p)) = params (data p)"
  by simp

lemma params_Close [simp]: "params (data (Close p reason)) = params (data p)"
  by (simp add: data_Close params_def)

lemma params_set_running [simp]: "params (data (set_running b p)) = params (data p)"
  by (simp add: set_running_def params_def)

lemma params_handlers:
  "params (data (onSignalOffer p msg)) = params (data p)"
  "params (data (onSignalReject p msg)) = params (data p)"
  "params (data (onSignalClose p msg)) = params (data p)"
  "params (data (onSignalAnswer e p msg)) = params (data p)"
  "params (data (onSignalCandidate e p msg)) = params (data p)"
  "params (data (onICECandidate e p c)) = params (data p)"
  "params (data (onConnectionStateChange p st)) = params (data p)"
  by (simp_all add: onSignalOffer_def onSignalReject_def onSignalClose_def onSignalAnswer_def
      onSignalCandidate_def onICECandidate_def onConnectionStateChange_def Let_def
      split: sum.splits option.splits peerConnectionState.splits)

lemma params_forward:
  "params (data (case forward e k i p of Done q \<Rightarrow> q | More q \<Rightarrow> q)) = params (data p)"
proof (induction k arbitrary: i p)
  case 0
  then show ?case by simp
next
  case (Suc k)
  show ?case
  proof (cases "recv e i")
    case None
    then show ?thesis by (simp add: Let_def)
  next
    case (Some d)
    let ?p2 = "emit (TrackWrite (track p) d) (emit (StreamReceive (Some d)) p)"
    show ?thesis
    proof (cases "track_write e i d")
      case None
      with Some Suc.IH [of "Suc i" ?p2] show ?thesis by (simp add: Let_def)
    next
      case (Some err)
      with \<open>recv e i = Some d\<close> show ?thesis by (simp add: Let_def)
    qed
  qed
qed

lemma params_run:
  "params (data (case run e k p of Done q \<Rightarrow> q | More q \<Rightarrow> q)) = params (data p)"
proof (cases "await_track k (set_running True p)")
  case None
  then show ?thesis by (simp add: run_def)
next
  case (Some p2)
  then have p2: "p2 = set_running True p" by (simp add: await_track_Some)
  show ?thesis
    using params_forward [of e k 0 "set_running True p"] Some p2
    by (cases "forward e k 0 (set_running True p)") (simp_all add: run_def)
qed

lemma params_deliver: "params (data (deliver e p cb)) = params (data p)"
  by (cases cb) (simp_all add: deliver_def params_handlers params_run)

lemma params_deliver_all: "params (data (deliver_all p cbs)) = params (data p)"
proof (induction cbs arbitrary: p)
  case Nil
  then show ?case by simp
next
  case (Cons x cbs)
  obtain e cb where x: "x = (e, cb)" by (cases x)
  show ?case using Cons.IH [of "deliver e p cb"] by (simp add: x params_deliver)
qed

lemma params_addTrack: "params (data (addTrack e p)) = params (data p)"
  by (simp add: addTrack_def Let_def split: sum.splits)

lemma params_beginHandshake: "params (data (beginHandshake e p)) = params (data p)"
  by (simp add: beginHandshake_def Let_def split: sum.splits option.splits)

lemma params_newRemotePeer:
  "params (data (fst (newRemotePeer e sig strm cls dat))) = params dat"
  by (cases "new_peer_connection e")
     (simp add: newRemotePeer_def Let_def params_addTrack params_beginHandshake
        split: option.splits)

text \<open>
  C3, as the specification states it, fails: the flags \<^verbatim>\<open>closed\<close> and \<^verbatim>\<open>running\<close> are
  fields of the very \<^verbatim>\<open>PeerData\<close> that holds the session parameters, and \<^verbatim>\<open>Close\<close> and
  \<^verbatim>\<open>run\<close> write them. On the freshly built session, \<^verbatim>\<open>Close\<close> changes the record, and
  so does the first iteration of the forwarding loop.
\<close>

theorem data_mutated_counterexample:
  "data (deliver demo_env demo_peer (CloseCall ''ok'')) \<noteq> data demo_peer \<and>
   data (deliver demo_env demo_peer (CloseCall ''ok'')) = demo_data\<lparr>closed := True\<rparr> \<and>
   data (deliver demo_env demo_peer (RunFor 1)) \<noteq> data demo_peer \<and>
   data (deliver demo_env demo_peer (RunFor 1)) = demo_data\<lparr>running := True\<rparr>"
  by (simp add: deliver_def data_Close demo_peer_fields demo_data_def run_def demo_env_def
      set_running_def Let_def)

text \<open>
  C3, amended. The parameter fields of the record passed to the session (the engine
  factory and its configuration, the session id, the track and stream identity, the MTU)
  are never changed: not by the construction, not by any signalling handler or engine
  callback, not by the forwarding loop however long it runs, not by \<^verbatim>\<open>Close\<close>, and so
  not by any sequence of them. The only fields of the record that are written are the
  flags \<^verbatim>\<open>closed\<close> and \<^verbatim>\<open>running\<close>.
\<close>

theorem session_params_unchanged:
  "params (data (fst (newRemotePeer e sig strm cls dat))) = params dat \<and>
   params (data (deliver e p cb)) = params (data p) \<and>
   params (data (deliver_all p cbs)) = params (data p) \<and>
   data (deliver e p cb) =
     (data p)\<lparr>running := running (data (deliver e p cb)),
              closed := closed (data (deliver e p cb))\<rparr>"
proof (intro conjI)
  have "params (data (deliver e p cb)) = params (data p)" by (rule params_deliver)
  then show "data (deliver e p cb) =
     (data p)\<lparr>running := running (data (deliver e p cb)),
              closed := closed (data (deliver e p cb))\<rparr>"
    by (cases "data (deliver e p cb)"; cases "data p") (simp add: params_def)
qed (rule params_newRemotePeer params_deliver params_deliver_all)+

subsection \<open>The ends of the forwarding loop\<close>

lemma close_reasons_simps [simp]:
  "close_reasons [] = []"
  "close_reasons (xs @ ys) = close_reasons xs @ close_reasons ys"
  "close_reasons (a # xs) = close_reason_of a @ close_reasons xs"
  by (simp_all add: close_reasons_def)



lemma exits_exclusive:
  "delivered e n \<Longrightarrow> recv e n \<noteq> None"
  "delivered e n \<Longrightarrow> recv e n = Some d \<Longrightarrow> track_write e n d = None"
  by (auto simp: delivered_def split: option.splits)




lemma teardown_set_running [simp]: "teardown (set_running b p) reason = teardown p reason"
  by (simp add: teardown_def)






end
